theory Spec2Isabelle
  imports Main
begin

section \<open>Monaco command contribution and keybinding contexts\<close>

text \<open>
  A shallow embedding of \<^verbatim>\<open>monaco-command.ts\<close> (the command contribution
  \<^verbatim>\<open>MonacoEditorCommandHandlers\<close> and the namespace \<^verbatim>\<open>MonacoCommands\<close>) and of
  \<^verbatim>\<open>monaco-keybinding-contexts.ts\<close>. The registries of the embedded editor and the
  services of the host are inputs of the model; closures built by the code are data
  (one constructor per closure, holding what it captures) together with a function that
  runs them.
\<close>

subsection \<open>JavaScript values, strings and \<^verbatim>\<open>Map\<close>\<close>

text \<open>Arguments and results of command handlers (\<^verbatim>\<open>any\<close>).\<close>

datatype any = Undefined | Str string | Num int | Bool bool | Array "any list"

text \<open>\<^verbatim>\<open>s.startsWith(p)\<close>.\<close>

fun startsWith :: "string \<Rightarrow> string \<Rightarrow> bool" where
  "startsWith s [] = True"
| "startsWith [] (p # ps) = False"
| "startsWith (c # cs) (p # ps) = (c = p \<and> startsWith cs ps)"

text \<open>
  A \<^verbatim>\<open>Map\<close> keeps its entries in insertion order; \<^verbatim>\<open>set\<close> on a key that is
  present replaces the value where the entry stands, on a new key it appends the entry.
\<close>

type_synonym ('k, 'v) js_map = "('k \<times> 'v) list"

fun jsmap_get :: "('k, 'v) js_map \<Rightarrow> 'k \<Rightarrow> 'v option" where
  "jsmap_get [] k = None"
| "jsmap_get ((k', v) # m) k = (if k' = k then Some v else jsmap_get m k)"

definition jsmap_has :: "('k, 'v) js_map \<Rightarrow> 'k \<Rightarrow> bool" where
  "jsmap_has m k = (jsmap_get m k \<noteq> None)"

fun jsmap_set :: "('k, 'v) js_map \<Rightarrow> 'k \<Rightarrow> 'v \<Rightarrow> ('k, 'v) js_map" where
  "jsmap_set [] k v = [(k, v)]"
| "jsmap_set ((k', v') # m) k v =
     (if k' = k then (k, v) # m else (k', v') # jsmap_set m k v)"

definition jsmap_keys :: "('k, 'v) js_map \<Rightarrow> 'k list" where
  "jsmap_keys m = map fst m"

definition jsmap_values :: "('k, 'v) js_map \<Rightarrow> 'v list" where
  "jsmap_values m = map snd m"

subsection \<open>The embedded editor's registries and the host's services\<close>

datatype error = Error string | TypeError

text \<open>The editor service of the contribution, as far as the handlers query it.\<close>

record MonacoEditorService =
  getActiveCodeEditor :: "nat option"
  hasFocusedCodeEditor :: bool

datatype ServiceIdentifier = ICodeEditorService | OtherService (service_type: string)

type_synonym ServicesAccessor = "ServiceIdentifier \<Rightarrow> error + MonacoEditorService"

text \<open>\<^verbatim>\<open>MonacoIcon\<close>: a pair of optional URIs, or a theme icon.\<close>

datatype MonacoIcon = UriIcon (dark: "string option") (light: "string option") | ThemeIcon string

record MonacoCommand =
  command_id :: string
  command_label :: "string option"
  command_icon :: "MonacoIcon option"

record ICommandAction =
  item_id :: string
  item_icon :: "MonacoIcon option"

record IMenuItem =
  menu_command :: "ICommandAction option"

record EditorAction =
  action_id :: string
  action_label :: string

record IKeybindingItem =
  keybinding_command :: string

record EditorCommand =
  runCommand :: "ServicesAccessor \<Rightarrow> any \<Rightarrow> any"

record ContextKeyExpr =
  when_key :: "string option"

record ICommand =
  handler :: "ServicesAccessor \<Rightarrow> any list \<Rightarrow> any"
  command_when :: "ContextKeyExpr option"

record IInstantiationService =
  invokeFunction :: "(ServicesAccessor \<Rightarrow> any list \<Rightarrow> any) \<Rightarrow> any list \<Rightarrow> any"

text \<open>
  The state of the embedded editor that the contribution reads:
  \<^verbatim>\<open>MenuRegistry.getMenuItems\<close>, \<^verbatim>\<open>EditorExtensionsRegistry.getEditorActions\<close> and
  \<^verbatim>\<open>getEditorCommand\<close>, \<^verbatim>\<open>KeybindingsRegistry.getDefaultKeybindings\<close>,
  \<^verbatim>\<open>CommandsRegistry.getCommands\<close> and \<^verbatim>\<open>getCommand\<close>, and
  \<^verbatim>\<open>StaticServices.instantiationService\<close>.
\<close>

record monaco =
  getMenuItems :: "nat \<Rightarrow> IMenuItem list"
  getEditorActions :: "EditorAction list"
  editorCommands :: "(string, EditorCommand) js_map"
  getDefaultKeybindings :: "IKeybindingItem list"
  getCommands :: "(string, ICommand) js_map"
  instantiationService :: IInstantiationService

definition getEditorCommand :: "monaco \<Rightarrow> string \<Rightarrow> EditorCommand option" where
  "getEditorCommand m i = jsmap_get (editorCommands m) i"

definition getCommand :: "monaco \<Rightarrow> string \<Rightarrow> ICommand option" where
  "getCommand m i = jsmap_get (getCommands m) i"

subsection \<open>\<^verbatim>\<open>MonacoCommands\<close>\<close>

definition EXCLUDE_ACTIONS :: "string list" where
  "EXCLUDE_ACTIONS =
     [''editor.action.quickCommand'',
      ''editor.action.clipboardCutAction'',
      ''editor.action.clipboardCopyAction'',
      ''editor.action.clipboardPasteAction'']"

text \<open>The first loop: the icon of every menu item of menu 7 that has a command with an icon.\<close>

fun icons_loop :: "IMenuItem list \<Rightarrow> (string, MonacoIcon) js_map \<Rightarrow> (string, MonacoIcon) js_map" where
  "icons_loop [] icons = icons"
| "icons_loop (menuItem # rest) icons =
     (case menu_command menuItem of
        None \<Rightarrow> icons_loop rest icons
      | Some commandItem \<Rightarrow>
          (case item_icon commandItem of
             None \<Rightarrow> icons_loop rest icons
           | Some icon \<Rightarrow> icons_loop rest (jsmap_set icons (item_id commandItem) icon)))"

definition icons :: "monaco \<Rightarrow> (string, MonacoIcon) js_map" where
  "icons m = icons_loop (getMenuItems m 7) []"

text \<open>The second loop: one entry per editor action that is not excluded.\<close>

fun actions_loop ::
  "(string, MonacoIcon) js_map \<Rightarrow> EditorAction list \<Rightarrow> (string, MonacoCommand) js_map
     \<Rightarrow> (string, MonacoCommand) js_map" where
  "actions_loop ics [] ACTIONS = ACTIONS"
| "actions_loop ics (action # rest) ACTIONS =
     (let i = action_id action in
      if i \<notin> set EXCLUDE_ACTIONS
      then actions_loop ics rest
             (jsmap_set ACTIONS i
                \<lparr>command_id = i, command_label = Some (action_label action),
                 command_icon = jsmap_get ics i\<rparr>)
      else actions_loop ics rest ACTIONS)"

text \<open>The third loop: a bare entry per default keybinding whose command has none yet.\<close>

fun keybindings_loop ::
  "IKeybindingItem list \<Rightarrow> (string, MonacoCommand) js_map \<Rightarrow> (string, MonacoCommand) js_map" where
  "keybindings_loop [] ACTIONS = ACTIONS"
| "keybindings_loop (keybinding # rest) ACTIONS =
     (let i = keybinding_command keybinding in
      if \<not> jsmap_has ACTIONS i \<and> i \<notin> set EXCLUDE_ACTIONS
      then keybindings_loop rest
             (jsmap_set ACTIONS i \<lparr>command_id = i, command_label = None, command_icon = None\<rparr>)
      else keybindings_loop rest ACTIONS)"

text \<open>\<^verbatim>\<open>ACTIONS\<close> when the second loop is done, and when the third is.\<close>

definition editor_action_entries :: "monaco \<Rightarrow> (string, MonacoCommand) js_map" where
  "editor_action_entries m = actions_loop (icons m) (getEditorActions m) []"

definition ACTIONS :: "monaco \<Rightarrow> (string, MonacoCommand) js_map" where
  "ACTIONS m = keybindings_loop (getDefaultKeybindings m) (editor_action_entries m)"

text \<open>Every entry of the map stands under the id of its descriptor.\<close>

definition keyed :: "(string, MonacoCommand) js_map \<Rightarrow> bool" where
  "keyed m = list_all (\<lambda>(k, c). command_id c = k) m"

subsection \<open>\<^verbatim>\<open>MonacoEditorCommandHandlers\<close>: command handlers\<close>

definition serviceAccessor :: "MonacoEditorService \<Rightarrow> ServicesAccessor" where
  "serviceAccessor editorService =
     (\<lambda>i. if i \<noteq> ICodeEditorService
          then Inl (Error (''Unhandled service identified: '' @ service_type i @ ''.''))
          else Inr editorService)"

text \<open>
  The three handler objects the contribution builds: around an editor command, around a
  core command, and around the name of an internal command with the map and the
  instantiation service its \<^verbatim>\<open>execute\<close> closes over.
\<close>

datatype CommandHandler =
    EditorCommandHandler EditorCommand
  | CoreCommandHandler ICommand
  | InternalCommandHandler IInstantiationService "(string, ICommand) js_map" string

definition newEditorCommandHandler :: "monaco \<Rightarrow> string \<Rightarrow> error + CommandHandler" where
  "newEditorCommandHandler m i =
     (case getEditorCommand m i of
        Some editorCommand \<Rightarrow> Inr (EditorCommandHandler editorCommand)
      | None \<Rightarrow>
          (case getCommand m i of
             Some command \<Rightarrow> Inr (CoreCommandHandler command)
           | None \<Rightarrow> Inl (Error (''Could not find monaco command with ID: '' @ i))))"

definition isNativeTextInputAware :: "ICommand \<Rightarrow> bool" where
  "isNativeTextInputAware command =
     (case command_when command of
        None \<Rightarrow> False
      | Some w \<Rightarrow> when_key w = Some ''textInputFocus'')"

text \<open>
  \<^verbatim>\<open>execute(...args)\<close> of a handler, for the editor service of the contribution. The
  first two pass the argument array as one argument; the third spreads it. The lookup
  \<^verbatim>\<open>monacoCommands.get(command)!\<close> fails with a type error on a missing key.
\<close>

fun execute :: "MonacoEditorService \<Rightarrow> CommandHandler \<Rightarrow> any list \<Rightarrow> error + any" where
  "execute es (EditorCommandHandler editorCommand) args =
     Inr (runCommand editorCommand (serviceAccessor es) (Array args))"
| "execute es (CoreCommandHandler command) args =
     Inr (handler command (serviceAccessor es) [Array args])"
| "execute es (InternalCommandHandler inst monacoCommands command) args =
     (case jsmap_get monacoCommands command of
        None \<Rightarrow> Inl TypeError
      | Some c \<Rightarrow> Inr (invokeFunction inst (handler c) args))"

text \<open>
  \<^verbatim>\<open>isEnabled()\<close> of a handler, \<open>None\<close> where the handler has no such member;
  \<open>nativeTextInput\<close> is the value of \<^verbatim>\<open>NativeTextInputFocusContext.is()\<close>.
\<close>

fun isEnabled_handler :: "MonacoEditorService \<Rightarrow> bool \<Rightarrow> CommandHandler \<Rightarrow> bool option" where
  "isEnabled_handler es nativeTextInput (EditorCommandHandler editorCommand) =
     Some (getActiveCodeEditor es \<noteq> None \<or> hasFocusedCodeEditor es)"
| "isEnabled_handler es nativeTextInput (CoreCommandHandler command) =
     Some (if getActiveCodeEditor es \<noteq> None \<or> hasFocusedCodeEditor es then True
           else if isNativeTextInputAware command \<and> nativeTextInput then True
           else False)"
| "isEnabled_handler es nativeTextInput (InternalCommandHandler inst monacoCommands command) = None"

subsection \<open>\<^verbatim>\<open>MonacoEditorCommandHandlers\<close>: registration\<close>

text \<open>
  The host's \<^verbatim>\<open>CommandRegistry\<close> is not among these sources. Its state is
  the sequence of the \<^verbatim>\<open>registerCommand(command, handler)\<close> calls it has received,
  the latest last.
\<close>

type_synonym CommandRegistry = "(MonacoCommand \<times> CommandHandler) list"

definition registerCommand ::
  "CommandRegistry \<Rightarrow> MonacoCommand \<Rightarrow> CommandHandler \<Rightarrow> CommandRegistry" where
  "registerCommand reg command h = reg @ [(command, h)]"

text \<open>
  The loop of \<^verbatim>\<open>registerBuiltinMonacoActions\<close>. The handler is built before the
  call of \<^verbatim>\<open>registerCommand\<close>, so an error of \<^verbatim>\<open>newEditorCommandHandler\<close> leaves
  the loop with the registry as the earlier iterations made it.
\<close>

fun registerBuiltinMonacoActions_loop ::
  "monaco \<Rightarrow> MonacoCommand list \<Rightarrow> CommandRegistry \<Rightarrow> (error + unit) \<times> CommandRegistry" where
  "registerBuiltinMonacoActions_loop m [] reg = (Inr (), reg)"
| "registerBuiltinMonacoActions_loop m (action # rest) reg =
     (case newEditorCommandHandler m (command_id action) of
        Inl e \<Rightarrow> (Inl e, reg)
      | Inr h \<Rightarrow> registerBuiltinMonacoActions_loop m rest (registerCommand reg action h))"

definition registerBuiltinMonacoActions ::
  "monaco \<Rightarrow> CommandRegistry \<Rightarrow> (error + unit) \<times> CommandRegistry" where
  "registerBuiltinMonacoActions m reg =
     registerBuiltinMonacoActions_loop m (jsmap_values (ACTIONS m)) reg"

fun registerInternalLanguageServiceCommands_loop ::
  "IInstantiationService \<Rightarrow> (string, ICommand) js_map \<Rightarrow> string list \<Rightarrow> CommandRegistry
     \<Rightarrow> CommandRegistry" where
  "registerInternalLanguageServiceCommands_loop inst monacoCommands [] reg = reg"
| "registerInternalLanguageServiceCommands_loop inst monacoCommands (command # rest) reg =
     (if startsWith command ''_execute''
      then registerInternalLanguageServiceCommands_loop inst monacoCommands rest
             (registerCommand reg
                \<lparr>command_id = command, command_label = None, command_icon = None\<rparr>
                (InternalCommandHandler inst monacoCommands command))
      else registerInternalLanguageServiceCommands_loop inst monacoCommands rest reg)"

definition registerInternalLanguageServiceCommands ::
  "monaco \<Rightarrow> CommandRegistry \<Rightarrow> CommandRegistry" where
  "registerInternalLanguageServiceCommands m reg =
     (let inst = instantiationService m;
          monacoCommands = getCommands m
      in registerInternalLanguageServiceCommands_loop inst monacoCommands
           (jsmap_keys monacoCommands) reg)"

subsection \<open>Editors, text models and the quick-open prompt\<close>

text \<open>
  Editors and text models are objects that closures capture and later change, so they
  live in a store and are named by references. Of the embedded editor's text model the
  store keeps the two options the code sets and the \<^verbatim>\<open>pushEOL\<close> calls it received.
\<close>

type_synonym ref = nat

datatype EndOfLineSequence = LF | CRLF

record ITextModel =
  tabSize :: int
  insertSpaces :: bool
  pushedEOL :: "EndOfLineSequence list"

definition pushEOL :: "ITextModel \<Rightarrow> EndOfLineSequence \<Rightarrow> ITextModel" where
  "pushEOL model eol = model\<lparr>pushedEOL := pushedEOL model @ [eol]\<rparr>"

definition updateOptions :: "ITextModel \<Rightarrow> int \<Rightarrow> bool \<Rightarrow> ITextModel" where
  "updateOptions model ts sp = model\<lparr>tabSize := ts, insertSpaces := sp\<rparr>"

record MonacoEditorModel =
  textEditorModel :: "ref option"

text \<open>
  \<^verbatim>\<open>isFocused\<close> of a \<^verbatim>\<open>MonacoEditor\<close> is the editor's own focus query, a function
  of its \<^verbatim>\<open>strict\<close> option.
\<close>

record MonacoEditor =
  document :: "MonacoEditorModel option"
  isFocused :: "bool \<Rightarrow> bool"

datatype QuickOpenMode = PREVIEW | OPEN | OPEN_IN_BACKGROUND

text \<open>
  The \<^verbatim>\<open>run\<close> closures of the quick-open items: of \<^verbatim>\<open>configureIndentation\<close>
  (editor, \<^verbatim>\<open>useSpaces\<close>), of \<^verbatim>\<open>configureEol\<close> (editor, \<^verbatim>\<open>lineEnding\<close>) and of
  \<^verbatim>\<open>configureTabSize\<close> (model, \<^verbatim>\<open>size\<close>, \<^verbatim>\<open>tabSize\<close>, \<^verbatim>\<open>useSpaces\<close>).
\<close>

datatype run_closure =
    IndentationRun ref bool
  | EolRun ref string
  | TabSizeRun ref int int bool

record QuickOpenItem =
  item_label :: string
  item_run :: run_closure

text \<open>One call of \<^verbatim>\<open>quickOpenService.open(model, options)\<close>.\<close>

record QuickOpenCall =
  onType :: "string \<Rightarrow> QuickOpenItem list"
  placeholder :: string
  fuzzyMatchLabel :: bool
  selectIndex :: "(string \<Rightarrow> int) option"

record world =
  editors :: "ref \<Rightarrow> MonacoEditor"
  textModels :: "ref \<Rightarrow> ITextModel"
  quickOpen :: "QuickOpenCall list"

definition quickOpenService_open :: "world \<Rightarrow> QuickOpenCall \<Rightarrow> world" where
  "quickOpenService_open w c = w\<lparr>quickOpen := quickOpen w @ [c]\<rparr>"

text \<open>\<^verbatim>\<open>editor.document && editor.document.textEditorModel\<close>.\<close>

definition model_of :: "world \<Rightarrow> ref \<Rightarrow> ref option" where
  "model_of w ed =
     (case document (editors w ed) of
        None \<Rightarrow> None
      | Some d \<Rightarrow> textEditorModel d)"

text \<open>\<^verbatim>\<open>toString()\<close> of an integer: decimal digits, with a sign when negative.\<close>

definition digit_char :: "nat \<Rightarrow> char" where
  "digit_char d = ''0123456789'' ! d"

function digits :: "nat \<Rightarrow> string" where
  "digits n = (if n < 10 then [digit_char n] else digits (n div 10) @ [digit_char (n mod 10)])"
  by pat_completeness auto
termination
  by (relation "measure (\<lambda>n. n)") auto

definition toString :: "int \<Rightarrow> string" where
  "toString i = (if i < 0 then CHR ''-'' # digits (nat (- i)) else digits (nat i))"

definition setEol :: "world \<Rightarrow> ref \<Rightarrow> string \<Rightarrow> world" where
  "setEol w ed lineEnding =
     (case model_of w ed of
        Some model \<Rightarrow>
          (if lineEnding = ''CRLF'' \<or> lineEnding = [CHR 0x0D, CHR 0x0A]
           then w\<lparr>textModels := (textModels w)(model := pushEOL (textModels w model) CRLF)\<rparr>
           else w\<lparr>textModels := (textModels w)(model := pushEOL (textModels w model) LF)\<rparr>)
      | None \<Rightarrow> w)"

definition configureEol :: "world \<Rightarrow> ref \<Rightarrow> world" where
  "configureEol w ed =
     (let options = map (\<lambda>lineEnding.
                      \<lparr>item_label = lineEnding, item_run = EolRun ed lineEnding\<rparr>)
                    [''LF'', ''CRLF'']
      in quickOpenService_open w
           \<lparr>onType = (\<lambda>_. options),
            placeholder = ''Select End of Line Sequence'',
            fuzzyMatchLabel = True,
            selectIndex = None\<rparr>)"

text \<open>
  In \<^verbatim>\<open>selectIndex\<close> both tests of \<^verbatim>\<open>!lookFor || lookFor === \<close> with the empty
  string literal hold exactly for the empty string.
\<close>

definition configureTabSize :: "world \<Rightarrow> ref \<Rightarrow> bool \<Rightarrow> world" where
  "configureTabSize w ed useSpaces =
     (case model_of w ed of
        Some model \<Rightarrow>
          (let ts = tabSize (textModels w model);
               sizes = map (\<lambda>x. int x + 1) [0..<8];
               tabSizeOptions = map (\<lambda>sz.
                   \<lparr>item_label =
                      (if sz = ts then toString sz @ ''   Configured Tab Size''
                       else toString sz),
                    item_run = TabSizeRun model sz ts useSpaces\<rparr>) sizes
           in quickOpenService_open w
                \<lparr>onType = (\<lambda>_. tabSizeOptions),
                 placeholder = ''Select Tab Size for Current File'',
                 fuzzyMatchLabel = True,
                 selectIndex = Some (\<lambda>lookFor. if lookFor = [] then ts - 1 else 0)\<rparr>)
      | None \<Rightarrow> w)"

definition configureIndentation :: "world \<Rightarrow> ref \<Rightarrow> world" where
  "configureIndentation w ed =
     (let options = map (\<lambda>useSpaces.
                      \<lparr>item_label = ''Indent Using '' @ (if useSpaces then ''Spaces'' else ''Tabs''),
                       item_run = IndentationRun ed useSpaces\<rparr>)
                    [True, False]
      in quickOpenService_open w
           \<lparr>onType = (\<lambda>_. options),
            placeholder = ''Select Action'',
            fuzzyMatchLabel = True,
            selectIndex = None\<rparr>)"

text \<open>\<^verbatim>\<open>run(mode)\<close> of a quick-open item: its result and the store it leaves.\<close>

fun run :: "run_closure \<Rightarrow> QuickOpenMode \<Rightarrow> world \<Rightarrow> bool \<times> world" where
  "run (IndentationRun ed useSpaces) mode w =
     (if mode = OPEN then (False, configureTabSize w ed useSpaces) else (False, w))"
| "run (EolRun ed lineEnding) mode w =
     (if mode = OPEN then (True, setEol w ed lineEnding) else (False, w))"
| "run (TabSizeRun model sz ts useSpaces) mode w =
     (if mode \<noteq> OPEN then (False, w)
      else (True, w\<lparr>textModels := (textModels w)
              (model := updateOptions (textModels w model)
                          (if sz \<noteq> 0 then sz else ts) useSpaces)\<rparr>))"

subsection \<open>Keybinding contexts\<close>

text \<open>
  The editor of a widget is a \<^verbatim>\<open>MonacoEditor\<close> or some other text editor. The
  \<^verbatim>\<open>canHandle\<close> of the base class \<^verbatim>\<open>StrictEditorTextFocusContext\<close> is not among
  these sources and is a parameter.
\<close>

datatype TextEditor = Monaco MonacoEditor | OtherEditor nat

record EditorWidget =
  editor :: TextEditor

definition canHandle :: "(EditorWidget \<Rightarrow> bool) \<Rightarrow> EditorWidget \<Rightarrow> bool" where
  "canHandle super_canHandle widget =
     (case editor widget of
        Monaco e \<Rightarrow> isFocused e True
      | OtherEditor _ \<Rightarrow> super_canHandle widget)"

text \<open>
  An element of the page with its \<^verbatim>\<open>id\<close> and its \<^verbatim>\<open>parentElement\<close>; the page is a
  tree, so the chain of parents is finite.
\<close>

datatype Element = Element (element_id: string) (parentElement: "Element option")

record Document =
  activeElement :: "Element option"

text \<open>
  The loop of \<^verbatim>\<open>activeElementIsInEditor\<close>, from the current \<^verbatim>\<open>parent\<close>;
  \<open>factoryId\<close> is the constant \<^verbatim>\<open>EditorWidgetFactory.ID\<close>, which is not among
  these sources.
\<close>

fun parent_loop :: "string \<Rightarrow> Element option \<Rightarrow> bool" where
  "parent_loop factoryId None = False"
| "parent_loop factoryId (Some (Element i p)) =
     (if i \<noteq> [] \<and> startsWith i factoryId then True else parent_loop factoryId p)"

definition activeElementIsInEditor :: "string \<Rightarrow> Document \<Rightarrow> bool" where
  "activeElementIsInEditor factoryId doc =
     parent_loop factoryId
       (case activeElement doc of None \<Rightarrow> None | Some a \<Rightarrow> parentElement a)"

text \<open>
  \<^verbatim>\<open>MonacoNativeTextInputFocusContext.isEnabled\<close>; \<open>super_isEnabled\<close> is the
  \<^verbatim>\<open>isEnabled\<close> of the base class \<^verbatim>\<open>NativeTextInputFocusContext\<close>, a parameter.
\<close>

definition isEnabled :: "(Document \<Rightarrow> bool) \<Rightarrow> string \<Rightarrow> Document \<Rightarrow> bool" where
  "isEnabled super_isEnabled factoryId doc =
     (super_isEnabled doc \<and> \<not> activeElementIsInEditor factoryId doc)"

text \<open>The proper ancestors of the active element, nearest first.\<close>

fun chain :: "Element option \<Rightarrow> Element list" where
  "chain None = []"
| "chain (Some (Element i p)) = Element i p # chain p"

definition ancestors :: "Document \<Rightarrow> Element list" where
  "ancestors doc = (case activeElement doc of None \<Rightarrow> [] | Some a \<Rightarrow> chain (parentElement a))"

subsection \<open>Concrete inputs\<close>

text \<open>
  An embedded editor with one editor action (and the excluded quick-command action), an
  icon for it in menu 7, an editor command, three default keybindings and two core
  commands, one of them internal.
\<close>

definition example_inst :: IInstantiationService where
  "example_inst = \<lparr>invokeFunction = (\<lambda>f args. f (\<lambda>i. Inl (Error ''no service'')) args)\<rparr>"

definition example_monaco :: monaco where
  "example_monaco =
     \<lparr>getMenuItems = (\<lambda>n. if n = 7
          then [\<lparr>menu_command = Some \<lparr>item_id = ''fold'', item_icon = Some (ThemeIcon ''chevron'')\<rparr>\<rparr>,
                \<lparr>menu_command = None\<rparr>]
          else []),
      getEditorActions =
        [\<lparr>action_id = ''fold'', action_label = ''Fold''\<rparr>,
         \<lparr>action_id = ''editor.action.quickCommand'', action_label = ''Command Palette''\<rparr>],
      editorCommands = [(''undo'', \<lparr>runCommand = (\<lambda>accessor a. a)\<rparr>)],
      getDefaultKeybindings =
        [\<lparr>keybinding_command = ''fold''\<rparr>,
         \<lparr>keybinding_command = ''undo''\<rparr>,
         \<lparr>keybinding_command = ''editor.action.clipboardCopyAction''\<rparr>],
      getCommands =
        [(''fold'', \<lparr>handler = (\<lambda>accessor args. Undefined), command_when = None\<rparr>),
         (''_executeHover'', \<lparr>handler = (\<lambda>accessor args. Array args), command_when = None\<rparr>)],
      instantiationService = example_inst\<rparr>"

text \<open>The same editor with a single default keybinding, for a command that no registry holds.\<close>

definition unbound_monaco :: monaco where
  "unbound_monaco =
     example_monaco\<lparr>getEditorActions := [],
                    getDefaultKeybindings := [\<lparr>keybinding_command = ''unbound''\<rparr>]\<rparr>"

text \<open>
  A store where editor 0 shows text model 5 (tab size 4), editor 1 has a document without
  a text model and every other editor has no document.
\<close>

definition example_world :: world where
  "example_world =
     \<lparr>editors = (\<lambda>r. if r = 0
          then \<lparr>document = Some \<lparr>textEditorModel = Some 5\<rparr>, isFocused = (\<lambda>strict. \<not> strict)\<rparr>
          else if r = 1
          then \<lparr>document = Some \<lparr>textEditorModel = None\<rparr>, isFocused = (\<lambda>strict. False)\<rparr>
          else \<lparr>document = None, isFocused = (\<lambda>strict. False)\<rparr>),
      textModels = (\<lambda>r. \<lparr>tabSize = 4, insertSpaces = True, pushedEOL = []\<rparr>),
      quickOpen = []\<rparr>"

text \<open>A page whose active element sits, two levels down, in an element of an editor widget.\<close>

definition example_document :: Document where
  "example_document =
     \<lparr>activeElement = Some (Element ''input'' (Some (Element []
        (Some (Element ''code-editor-opener:file'' None)))))\<rparr>"

section \<open>Properties\<close>

subsection \<open>Maps and the loops over them\<close>

lemma keys_jsmap_set:
  "map fst (jsmap_set m k v) = (if k \<in> set (map fst m) then map fst m else map fst m @ [k])"
  by (induction m) force+

lemma set_keys_jsmap_set: "set (jsmap_keys (jsmap_set m k v)) = insert k (set (jsmap_keys m))"
  by (auto simp: jsmap_keys_def keys_jsmap_set)

lemma jsmap_get_set: "jsmap_get (jsmap_set m k v) k' = (if k' = k then Some v else jsmap_get m k')"
  by (induction m) auto

lemma jsmap_get_None_iff: "jsmap_get m k = None \<longleftrightarrow> k \<notin> set (map fst m)"
  by (induction m) force+

lemma jsmap_has_iff: "jsmap_has m k \<longleftrightarrow> k \<in> set (jsmap_keys m)"
  by (simp add: jsmap_has_def jsmap_keys_def jsmap_get_None_iff)

lemma distinct_jsmap_set: "distinct (jsmap_keys m) \<Longrightarrow> distinct (jsmap_keys (jsmap_set m k v))"
  by (simp add: jsmap_keys_def keys_jsmap_set)

lemma startsWith_iff: "startsWith s p \<longleftrightarrow> (\<exists>t. s = p @ t)"
  by (induction s p rule: startsWith.induct) auto

lemma keyed_jsmap_set: "keyed m \<Longrightarrow> command_id c = k \<Longrightarrow> keyed (jsmap_set m k c)"
  by (induction m) (auto simp: keyed_def)

lemma keyed_actions_loop: "keyed A \<Longrightarrow> keyed (actions_loop ics acts A)"
  by (induction acts arbitrary: A) (auto simp: Let_def keyed_jsmap_set)

lemma keyed_keybindings_loop: "keyed A \<Longrightarrow> keyed (keybindings_loop kbs A)"
  by (induction kbs arbitrary: A) (auto simp: Let_def keyed_jsmap_set)

lemma distinct_actions_loop:
  "distinct (jsmap_keys A) \<Longrightarrow> distinct (jsmap_keys (actions_loop ics acts A))"
  by (induction acts arbitrary: A) (auto simp: Let_def distinct_jsmap_set)

lemma distinct_keybindings_loop:
  "distinct (jsmap_keys A) \<Longrightarrow> distinct (jsmap_keys (keybindings_loop kbs A))"
  by (induction kbs arbitrary: A) (auto simp: Let_def distinct_jsmap_set)

lemma keys_actions_loop:
  "set (jsmap_keys (actions_loop ics acts A)) =
     set (jsmap_keys A) \<union> (action_id ` set acts - set EXCLUDE_ACTIONS)"
  by (induction acts arbitrary: A) (auto simp: Let_def set_keys_jsmap_set)

lemma keys_keybindings_loop:
  "set (jsmap_keys (keybindings_loop kbs A)) =
     set (jsmap_keys A) \<union> (keybinding_command ` set kbs - set EXCLUDE_ACTIONS)"
  by (induction kbs arbitrary: A)
     (auto simp: Let_def set_keys_jsmap_set jsmap_has_iff)

lemma get_keybindings_loop:
  "jsmap_get (keybindings_loop kbs A) i =
     (case jsmap_get A i of
        Some c \<Rightarrow> Some c
      | None \<Rightarrow>
          if i \<in> keybinding_command ` set kbs \<and> i \<notin> set EXCLUDE_ACTIONS
          then Some \<lparr>command_id = i, command_label = None, command_icon = None\<rparr>
          else None)"
  by (induction kbs arbitrary: A)
     (auto simp: Let_def jsmap_get_set jsmap_has_def split: option.splits)

lemma get_actions_loop:
  "jsmap_get (actions_loop ics acts A) i =
     (case filter (\<lambda>a. action_id a = i) acts of
        [] \<Rightarrow> jsmap_get A i
      | a # as \<Rightarrow>
          if i \<in> set EXCLUDE_ACTIONS then jsmap_get A i
          else Some \<lparr>command_id = i, command_label = Some (action_label (last (a # as))),
                     command_icon = jsmap_get ics i\<rparr>)"
proof (induction acts arbitrary: A)
  case Nil
  show ?case by simp
next
  case (Cons a acts)
  show ?case
    by (cases "filter (\<lambda>a. action_id a = i) acts")
       (auto simp: Let_def Cons.IH jsmap_get_set split: list.splits)
qed

lemma values_keyed: "keyed m \<Longrightarrow> map command_id (jsmap_values m) = jsmap_keys m"
  by (induction m) (auto simp: keyed_def jsmap_values_def jsmap_keys_def)

lemma keyed_ACTIONS: "keyed (ACTIONS m)"
  unfolding ACTIONS_def editor_action_entries_def
  by (intro keyed_keybindings_loop keyed_actions_loop) (simp add: keyed_def)

lemma distinct_ACTIONS: "distinct (jsmap_keys (ACTIONS m))"
  unfolding ACTIONS_def editor_action_entries_def
  by (intro distinct_keybindings_loop distinct_actions_loop) (simp add: jsmap_keys_def)

lemma keys_ACTIONS:
  "set (jsmap_keys (ACTIONS m)) =
     (action_id ` set (getEditorActions m) \<union> keybinding_command ` set (getDefaultKeybindings m))
       - set EXCLUDE_ACTIONS"
proof -
  have "set (jsmap_keys ([] :: (string, MonacoCommand) js_map)) = {}"
    by (simp add: jsmap_keys_def)
  then show ?thesis
    unfolding ACTIONS_def editor_action_entries_def keys_keybindings_loop keys_actions_loop
    by auto
qed

lemma loop_registers:
  "\<forall>a \<in> set acts. getEditorCommand m (command_id a) \<noteq> None \<or> getCommand m (command_id a) \<noteq> None
   \<Longrightarrow> \<exists>new. registerBuiltinMonacoActions_loop m acts reg = (Inr (), reg @ new)
         \<and> map fst new = acts
         \<and> (\<forall>(a, h) \<in> set new. newEditorCommandHandler m (command_id a) = Inr h)"
proof (induction acts arbitrary: reg)
  case Nil
  show ?case by simp
next
  case (Cons a acts)
  from Cons.prems have "\<exists>h. newEditorCommandHandler m (command_id a) = Inr h"
    by (auto simp: newEditorCommandHandler_def split: option.splits)
  then obtain h where h: "newEditorCommandHandler m (command_id a) = Inr h" ..
  from Cons.prems have "\<forall>a \<in> set acts. getEditorCommand m (command_id a) \<noteq> None \<or> getCommand m (command_id a) \<noteq> None"
    by simp
  from Cons.IH [OF this, of "registerCommand reg a h"] obtain new where
    new: "registerBuiltinMonacoActions_loop m acts (registerCommand reg a h)
            = (Inr (), registerCommand reg a h @ new)"
      "map fst new = acts"
      "\<forall>(a, h) \<in> set new. newEditorCommandHandler m (command_id a) = Inr h"
    by blast
  show ?case
  proof (intro exI conjI)
    show "registerBuiltinMonacoActions_loop m (a # acts) reg = (Inr (), reg @ ((a, h) # new))"
      using h new(1) by (simp add: registerCommand_def)
    show "map fst ((a, h) # new) = a # acts" using new(2) by simp
    show "\<forall>(a, h) \<in> set ((a, h) # new). newEditorCommandHandler m (command_id a) = Inr h"
      using h new(3) by simp
  qed
qed

lemma loop_prefix:
  "\<exists>new rest. snd (registerBuiltinMonacoActions_loop m acts reg) = reg @ new
     \<and> map fst new @ rest = acts"
proof (induction acts arbitrary: reg)
  case Nil
  show ?case by simp
next
  case (Cons a acts)
  show ?case
  proof (cases "newEditorCommandHandler m (command_id a)")
    case (Inl e)
    then have "snd (registerBuiltinMonacoActions_loop m (a # acts) reg) = reg @ []
       \<and> map fst ([] :: (MonacoCommand \<times> CommandHandler) list) @ (a # acts) = a # acts"
      by simp
    then show ?thesis by blast
  next
    case (Inr h)
    from Cons.IH [of "registerCommand reg a h"] obtain new rest where
      "snd (registerBuiltinMonacoActions_loop m acts (registerCommand reg a h))
         = registerCommand reg a h @ new"
      "map fst new @ rest = acts"
      by blast
    with Inr have "snd (registerBuiltinMonacoActions_loop m (a # acts) reg) = reg @ ((a, h) # new)
       \<and> map fst ((a, h) # new) @ rest = a # acts"
      by (simp add: registerCommand_def)
    then show ?thesis by blast
  qed
qed

lemma internal_loop:
  "registerInternalLanguageServiceCommands_loop inst mc ks reg =
     reg @ map (\<lambda>command.
                (\<lparr>command_id = command, command_label = None, command_icon = None\<rparr>,
                 InternalCommandHandler inst mc command))
             (filter (\<lambda>k. startsWith k ''_execute'') ks)"
  by (induction ks arbitrary: reg) (simp_all add: registerCommand_def)


subsection \<open>Concrete values and the loop over the ancestors\<close>

lemma ACTIONS_example:
  "ACTIONS example_monaco =
     [(''fold'', \<lparr>command_id = ''fold'', command_label = Some ''Fold'',
                  command_icon = Some (ThemeIcon ''chevron'')\<rparr>),
      (''undo'', \<lparr>command_id = ''undo'', command_label = None, command_icon = None\<rparr>)]"
  by (simp add: ACTIONS_def editor_action_entries_def icons_def example_monaco_def
      jsmap_has_def EXCLUDE_ACTIONS_def Let_def)

lemma toString_sizes:
  "map toString [1, 2, 3, 4, 5, 6, 7, 8] = map (\<lambda>d. [d]) ''12345678''"
  by (simp add: toString_def digit_char_def)

lemma sizes_eq: "map (\<lambda>x. int x + 1) [0..<8] = [1, 2, 3, 4, 5, 6, 7, 8]"
  by (simp add: upt_rec)

lemma parent_loop_iff:
  "parent_loop factoryId p
     \<longleftrightarrow> (\<exists>a \<in> set (chain p). element_id a \<noteq> [] \<and> startsWith (element_id a) factoryId)"
  by (induction factoryId p rule: parent_loop.induct) auto

lemma activeElementIsInEditor_iff:
  "activeElementIsInEditor factoryId doc
     \<longleftrightarrow> (\<exists>a \<in> set (ancestors doc). element_id a \<noteq> [] \<and> startsWith (element_id a) factoryId)"
  by (auto simp: activeElementIsInEditor_def ancestors_def parent_loop_iff split: option.splits)

subsection \<open>Building a handler\<close>

text \<open>
  C1. \<^verbatim>\<open>newEditorCommandHandler(id)\<close> throws the error whose message reports the
  missing id if and only if the id is found neither by \<^verbatim>\<open>getEditorCommand\<close> nor by
  \<^verbatim>\<open>getCommand\<close>; when either lookup succeeds it returns a handler.
\<close>

theorem newEditorCommandHandler_throws_iff:
  "(newEditorCommandHandler m i = Inl (Error (''Could not find monaco command with ID: '' @ i))
      \<longleftrightarrow> getEditorCommand m i = None \<and> getCommand m i = None)
   \<and> ((\<exists>e. newEditorCommandHandler m i = Inl e)
      \<longleftrightarrow> getEditorCommand m i = None \<and> getCommand m i = None)
   \<and> ((\<exists>h. newEditorCommandHandler m i = Inr h)
      \<longleftrightarrow> getEditorCommand m i \<noteq> None \<or> getCommand m i \<noteq> None)"
  by (auto simp: newEditorCommandHandler_def split: option.splits)

theorem newEditorCommandHandler_throws_iff_witness:
  "newEditorCommandHandler example_monaco ''unbound''
     = Inl (Error ''Could not find monaco command with ID: unbound'')
   \<and> (\<exists>h. newEditorCommandHandler example_monaco ''undo'' = Inr h)
   \<and> (\<exists>h. newEditorCommandHandler example_monaco ''fold'' = Inr h)"
  using newEditorCommandHandler_throws_iff [of example_monaco "''unbound''"]
    newEditorCommandHandler_throws_iff [of example_monaco "''undo''"]
    newEditorCommandHandler_throws_iff [of example_monaco "''fold''"]
  by (simp add: getEditorCommand_def getCommand_def example_monaco_def)

subsection \<open>Registering the built-in actions\<close>

text \<open>
  C2 (as amended). \<^verbatim>\<open>registerBuiltinMonacoActions\<close> registers commands for a
  leading part of the entries of \<^verbatim>\<open>ACTIONS\<close>, one each and in their order, and none
  else. The entries stand under their own ids, which are pairwise distinct and are the ids
  of the editor actions and the commands of the default keybindings that are not in
  \<^verbatim>\<open>EXCLUDE_ACTIONS\<close>, so no excluded id is ever registered. The entry of an editor
  action carries the label of an action of that id and the icon the icon map holds for it;
  the entry of a command that only a keybinding names carries neither. When every id of
  \<^verbatim>\<open>ACTIONS\<close> is found by \<^verbatim>\<open>getEditorCommand\<close> or by \<^verbatim>\<open>getCommand\<close>, the
  function ends without an error and has registered exactly one command per entry of
  \<^verbatim>\<open>ACTIONS\<close>, each with the handler \<^verbatim>\<open>newEditorCommandHandler\<close> builds for its id.
\<close>

theorem registerBuiltinMonacoActions_registers:
  "(\<exists>new rest. snd (registerBuiltinMonacoActions m reg) = reg @ new
       \<and> map fst new @ rest = jsmap_values (ACTIONS m))
   \<and> map command_id (jsmap_values (ACTIONS m)) = jsmap_keys (ACTIONS m)
   \<and> distinct (jsmap_keys (ACTIONS m))
   \<and> set (jsmap_keys (ACTIONS m))
       = (action_id ` set (getEditorActions m)
            \<union> keybinding_command ` set (getDefaultKeybindings m)) - set EXCLUDE_ACTIONS
   \<and> (\<forall>a \<in> set (getEditorActions m). action_id a \<notin> set EXCLUDE_ACTIONS \<longrightarrow>
         (\<exists>b \<in> set (getEditorActions m). action_id b = action_id a
            \<and> jsmap_get (ACTIONS m) (action_id a)
                = Some \<lparr>command_id = action_id a, command_label = Some (action_label b),
                        command_icon = jsmap_get (icons m) (action_id a)\<rparr>))
   \<and> (\<forall>i \<in> set (jsmap_keys (ACTIONS m)). i \<notin> action_id ` set (getEditorActions m) \<longrightarrow>
         jsmap_get (ACTIONS m) i
           = Some \<lparr>command_id = i, command_label = None, command_icon = None\<rparr>)
   \<and> ((\<forall>i \<in> set (jsmap_keys (ACTIONS m)).
          getEditorCommand m i \<noteq> None \<or> getCommand m i \<noteq> None) \<longrightarrow>
        (\<exists>new. registerBuiltinMonacoActions m reg = (Inr (), reg @ new)
           \<and> map fst new = jsmap_values (ACTIONS m)
           \<and> (\<forall>(a, h) \<in> set new. newEditorCommandHandler m (command_id a) = Inr h)))"
proof (intro conjI impI)
  show "\<exists>new rest. snd (registerBuiltinMonacoActions m reg) = reg @ new
       \<and> map fst new @ rest = jsmap_values (ACTIONS m)"
    unfolding registerBuiltinMonacoActions_def by (rule loop_prefix)
  show ids: "map command_id (jsmap_values (ACTIONS m)) = jsmap_keys (ACTIONS m)"
    by (rule values_keyed [OF keyed_ACTIONS])
  show "distinct (jsmap_keys (ACTIONS m))" by (rule distinct_ACTIONS)
  show "set (jsmap_keys (ACTIONS m))
             = (action_id ` set (getEditorActions m)
                  \<union> keybinding_command ` set (getDefaultKeybindings m)) - set EXCLUDE_ACTIONS"
    by (rule keys_ACTIONS)
  show "\<forall>a \<in> set (getEditorActions m). action_id a \<notin> set EXCLUDE_ACTIONS \<longrightarrow>
               (\<exists>b \<in> set (getEditorActions m). action_id b = action_id a
                  \<and> jsmap_get (ACTIONS m) (action_id a)
                      = Some \<lparr>command_id = action_id a, command_label = Some (action_label b),
                              command_icon = jsmap_get (icons m) (action_id a)\<rparr>)"
  proof (intro ballI impI)
    fix a assume a: "a \<in> set (getEditorActions m)" "action_id a \<notin> set EXCLUDE_ACTIONS"
    let ?f = "filter (\<lambda>b. action_id b = action_id a) (getEditorActions m)"
    from a have ne: "?f \<noteq> []" by (auto simp: filter_empty_conv)
    then have "last ?f \<in> set ?f" by (rule last_in_set)
    then have l: "last ?f \<in> set (getEditorActions m)" "action_id (last ?f) = action_id a"
      by auto
    from ne a(2) have "jsmap_get (editor_action_entries m) (action_id a)
        = Some \<lparr>command_id = action_id a, command_label = Some (action_label (last ?f)),
                command_icon = jsmap_get (icons m) (action_id a)\<rparr>"
      by (simp add: editor_action_entries_def get_actions_loop split: list.splits)
    then have "jsmap_get (ACTIONS m) (action_id a)
        = Some \<lparr>command_id = action_id a, command_label = Some (action_label (last ?f)),
                command_icon = jsmap_get (icons m) (action_id a)\<rparr>"
      by (simp add: ACTIONS_def get_keybindings_loop)
    with l show "\<exists>b \<in> set (getEditorActions m). action_id b = action_id a
                  \<and> jsmap_get (ACTIONS m) (action_id a)
                      = Some \<lparr>command_id = action_id a, command_label = Some (action_label b),
                              command_icon = jsmap_get (icons m) (action_id a)\<rparr>"
      by blast
  qed
  show "\<forall>i \<in> set (jsmap_keys (ACTIONS m)). i \<notin> action_id ` set (getEditorActions m) \<longrightarrow>
               jsmap_get (ACTIONS m) i
                 = Some \<lparr>command_id = i, command_label = None, command_icon = None\<rparr>"
  proof (intro ballI impI)
    fix i assume i: "i \<in> set (jsmap_keys (ACTIONS m))" "i \<notin> action_id ` set (getEditorActions m)"
    from i(2) have "filter (\<lambda>b. action_id b = i) (getEditorActions m) = []"
      by (auto simp: filter_empty_conv)
    then have none: "jsmap_get (editor_action_entries m) i = None"
      by (simp add: editor_action_entries_def get_actions_loop)
    from i have "i \<in> keybinding_command ` set (getDefaultKeybindings m)" "i \<notin> set EXCLUDE_ACTIONS"
      by (auto simp: keys_ACTIONS)
    with none show "jsmap_get (ACTIONS m) i
                 = Some \<lparr>command_id = i, command_label = None, command_icon = None\<rparr>"
      by (simp add: ACTIONS_def get_keybindings_loop)
  qed
  assume found: "\<forall>i \<in> set (jsmap_keys (ACTIONS m)).
          getEditorCommand m i \<noteq> None \<or> getCommand m i \<noteq> None"
  have "\<forall>a \<in> set (jsmap_values (ACTIONS m)).
          getEditorCommand m (command_id a) \<noteq> None \<or> getCommand m (command_id a) \<noteq> None"
  proof
    fix a assume "a \<in> set (jsmap_values (ACTIONS m))"
    then have "command_id a \<in> set (map command_id (jsmap_values (ACTIONS m)))" by simp
    with ids found
    show "getEditorCommand m (command_id a) \<noteq> None \<or> getCommand m (command_id a) \<noteq> None"
      by simp
  qed
  from loop_registers [OF this, of reg]
  show "\<exists>new. registerBuiltinMonacoActions m reg = (Inr (), reg @ new)
            \<and> map fst new = jsmap_values (ACTIONS m)
            \<and> (\<forall>(a, h) \<in> set new. newEditorCommandHandler m (command_id a) = Inr h)"
    by (simp add: registerBuiltinMonacoActions_def)
qed

theorem registerBuiltinMonacoActions_counterexample:
  "jsmap_keys (ACTIONS unbound_monaco) = [''unbound'']
   \<and> registerBuiltinMonacoActions unbound_monaco []
       = (Inl (Error ''Could not find monaco command with ID: unbound''), [])"
  by (simp add: registerBuiltinMonacoActions_def ACTIONS_def editor_action_entries_def
      unbound_monaco_def example_monaco_def jsmap_keys_def jsmap_values_def jsmap_has_def Let_def
      EXCLUDE_ACTIONS_def newEditorCommandHandler_def getEditorCommand_def getCommand_def)

theorem registerBuiltinMonacoActions_registers_witness:
  "\<exists>new. registerBuiltinMonacoActions example_monaco [] = (Inr (), new)
         \<and> map (command_id \<circ> fst) new = [''fold'', ''undo'']
         \<and> map (command_label \<circ> fst) new = [Some ''Fold'', None]"
proof -
  have h: "\<forall>i \<in> set (jsmap_keys (ACTIONS example_monaco)).
             getEditorCommand example_monaco i \<noteq> None \<or> getCommand example_monaco i \<noteq> None"
    by (simp add: ACTIONS_example jsmap_keys_def)
       (simp add: getEditorCommand_def getCommand_def example_monaco_def)
  from registerBuiltinMonacoActions_registers [of example_monaco "[]"] h
  obtain new where "registerBuiltinMonacoActions example_monaco [] = (Inr (), [] @ new)"
    and "map fst new = jsmap_values (ACTIONS example_monaco)"
    by blast
  then show ?thesis
    by (intro exI [of _ new]) (simp add: ACTIONS_example jsmap_values_def flip: map_map)
qed

text \<open>
  C3. \<^verbatim>\<open>ACTIONS\<close> holds at most one descriptor per command id: its keys are pairwise
  distinct and every descriptor stands under its own id. The pass over the default
  keybindings leaves every entry it finds as it is, so the entry of an editor action that
  is not excluded still carries the action's label and icon when \<^verbatim>\<open>ACTIONS\<close> is
  complete.
\<close>

theorem ACTIONS_unique_by_id:
  "distinct (jsmap_keys (ACTIONS m))
   \<and> map command_id (jsmap_values (ACTIONS m)) = jsmap_keys (ACTIONS m)
   \<and> (\<forall>kbs A i. jsmap_has A i \<longrightarrow> jsmap_get (keybindings_loop kbs A) i = jsmap_get A i)
   \<and> (\<forall>i. jsmap_has (editor_action_entries m) i \<longrightarrow>
          jsmap_get (ACTIONS m) i = jsmap_get (editor_action_entries m) i)
   \<and> (\<forall>a \<in> set (getEditorActions m). action_id a \<notin> set EXCLUDE_ACTIONS \<longrightarrow>
          (\<exists>c. jsmap_get (ACTIONS m) (action_id a) = Some c
             \<and> command_label c \<noteq> None
             \<and> command_icon c = jsmap_get (icons m) (action_id a)))"
proof (intro conjI)
  show "distinct (jsmap_keys (ACTIONS m))" by (rule distinct_ACTIONS)
  show "map command_id (jsmap_values (ACTIONS m)) = jsmap_keys (ACTIONS m)"
    by (rule values_keyed [OF keyed_ACTIONS])
  show kept: "\<forall>kbs A i. jsmap_has A i \<longrightarrow> jsmap_get (keybindings_loop kbs A) i = jsmap_get A i"
    by (auto simp: jsmap_has_def get_keybindings_loop)
  then show "\<forall>i. jsmap_has (editor_action_entries m) i \<longrightarrow>
          jsmap_get (ACTIONS m) i = jsmap_get (editor_action_entries m) i"
    by (simp add: ACTIONS_def)
  show "\<forall>a \<in> set (getEditorActions m). action_id a \<notin> set EXCLUDE_ACTIONS \<longrightarrow>
          (\<exists>c. jsmap_get (ACTIONS m) (action_id a) = Some c
             \<and> command_label c \<noteq> None
             \<and> command_icon c = jsmap_get (icons m) (action_id a))"
  proof (intro ballI impI)
    fix a assume a: "a \<in> set (getEditorActions m)" "action_id a \<notin> set EXCLUDE_ACTIONS"
    let ?f = "filter (\<lambda>b. action_id b = action_id a) (getEditorActions m)"
    from a have "?f \<noteq> []" by (auto simp: filter_empty_conv)
    with a(2) have "jsmap_get (editor_action_entries m) (action_id a)
        = Some \<lparr>command_id = action_id a, command_label = Some (action_label (last ?f)),
                command_icon = jsmap_get (icons m) (action_id a)\<rparr>"
      by (simp add: editor_action_entries_def get_actions_loop split: list.splits)
    then show "\<exists>c. jsmap_get (ACTIONS m) (action_id a) = Some c
             \<and> command_label c \<noteq> None
             \<and> command_icon c = jsmap_get (icons m) (action_id a)"
      by (simp add: ACTIONS_def get_keybindings_loop)
  qed
qed

theorem ACTIONS_unique_by_id_witness:
  "jsmap_has (editor_action_entries example_monaco) ''fold''
   \<and> \<lparr>keybinding_command = ''fold''\<rparr> \<in> set (getDefaultKeybindings example_monaco)
   \<and> jsmap_get (ACTIONS example_monaco) ''fold''
       = Some \<lparr>command_id = ''fold'', command_label = Some ''Fold'',
               command_icon = Some (ThemeIcon ''chevron'')\<rparr>"
proof -
  have e: "editor_action_entries example_monaco
      = [(''fold'', \<lparr>command_id = ''fold'', command_label = Some ''Fold'',
                     command_icon = Some (ThemeIcon ''chevron'')\<rparr>)]"
    by (simp add: editor_action_entries_def icons_def example_monaco_def
        EXCLUDE_ACTIONS_def Let_def)
  then have h: "jsmap_has (editor_action_entries example_monaco) ''fold''"
    by (simp add: jsmap_has_def)
  with ACTIONS_unique_by_id [of example_monaco]
  have "jsmap_get (ACTIONS example_monaco) ''fold''
          = jsmap_get (editor_action_entries example_monaco) ''fold''"
    by blast
  with h show ?thesis by (simp add: e) (simp add: example_monaco_def)
qed

subsection \<open>Registering the internal commands\<close>

text \<open>
  C4. \<^verbatim>\<open>registerInternalLanguageServiceCommands\<close> registers, in the order of the keys,
  one command for each key of \<^verbatim>\<open>CommandsRegistry.getCommands()\<close> that starts with
  \<^verbatim>\<open>_execute\<close> and for no other; executing a registered handler on an argument list
  gives what the instantiation service's \<^verbatim>\<open>invokeFunction\<close> gives for the original
  command's handler and the same argument list.
\<close>

theorem registerInternalLanguageServiceCommands_exact:
  "registerInternalLanguageServiceCommands m reg =
     reg @ map (\<lambda>command.
                (\<lparr>command_id = command, command_label = None, command_icon = None\<rparr>,
                 InternalCommandHandler (instantiationService m) (getCommands m) command))
             (filter (\<lambda>k. startsWith k ''_execute'') (jsmap_keys (getCommands m)))
   \<and> (\<forall>k. startsWith k ''_execute'' \<longleftrightarrow> (\<exists>t. k = ''_execute'' @ t))
   \<and> (\<forall>command \<in> set (jsmap_keys (getCommands m)).
         \<exists>original. getCommand m command = Some original
           \<and> (\<forall>es args.
                 execute es (InternalCommandHandler (instantiationService m) (getCommands m) command) args
                   = Inr (invokeFunction (instantiationService m) (handler original) args)))"
proof (intro conjI)
  show "registerInternalLanguageServiceCommands m reg =
     reg @ map (\<lambda>command.
                (\<lparr>command_id = command, command_label = None, command_icon = None\<rparr>,
                 InternalCommandHandler (instantiationService m) (getCommands m) command))
             (filter (\<lambda>k. startsWith k ''_execute'') (jsmap_keys (getCommands m)))"
    by (simp add: registerInternalLanguageServiceCommands_def internal_loop Let_def)
  show "\<forall>k. startsWith k ''_execute'' \<longleftrightarrow> (\<exists>t. k = ''_execute'' @ t)"
    by (simp only: startsWith_iff) simp
  show "\<forall>command \<in> set (jsmap_keys (getCommands m)).
         \<exists>original. getCommand m command = Some original
           \<and> (\<forall>es args.
                 execute es (InternalCommandHandler (instantiationService m) (getCommands m) command) args
                   = Inr (invokeFunction (instantiationService m) (handler original) args))"
  proof
    fix command assume "command \<in> set (jsmap_keys (getCommands m))"
    then have "jsmap_get (getCommands m) command \<noteq> None"
      by (simp add: jsmap_get_None_iff jsmap_keys_def)
    then obtain original where "jsmap_get (getCommands m) command = Some original" by blast
    then show "\<exists>original. getCommand m command = Some original
           \<and> (\<forall>es args.
                 execute es (InternalCommandHandler (instantiationService m) (getCommands m) command) args
                   = Inr (invokeFunction (instantiationService m) (handler original) args))"
      by (simp add: getCommand_def)
  qed
qed

theorem registerInternalLanguageServiceCommands_exact_witness:
  "map (command_id \<circ> fst) (registerInternalLanguageServiceCommands example_monaco [])
     = [''_executeHover'']
   \<and> (\<forall>es. execute es (InternalCommandHandler example_inst (getCommands example_monaco)
                        ''_executeHover'') [Num 1, Str ''a'']
            = Inr (Array [Num 1, Str ''a'']))"
proof -
  have k: "''_executeHover'' \<in> set (jsmap_keys (getCommands example_monaco))"
    by (simp add: jsmap_keys_def example_monaco_def)
  have i: "instantiationService example_monaco = example_inst"
    by (simp add: example_monaco_def)
  from registerInternalLanguageServiceCommands_exact [of example_monaco "[]"] k
  have r: "registerInternalLanguageServiceCommands example_monaco [] =
     [] @ map (\<lambda>command.
                (\<lparr>command_id = command, command_label = None, command_icon = None\<rparr>,
                 InternalCommandHandler (instantiationService example_monaco)
                   (getCommands example_monaco) command))
             (filter (\<lambda>k. startsWith k ''_execute'') (jsmap_keys (getCommands example_monaco)))"
    and "\<exists>original. getCommand example_monaco ''_executeHover'' = Some original
           \<and> (\<forall>es args.
                 execute es (InternalCommandHandler (instantiationService example_monaco)
                     (getCommands example_monaco) ''_executeHover'') args
                   = Inr (invokeFunction (instantiationService example_monaco) (handler original) args))"
    by blast+
  then obtain original where o: "getCommand example_monaco ''_executeHover'' = Some original"
    and e: "\<forall>es args.
                 execute es (InternalCommandHandler example_inst
                     (getCommands example_monaco) ''_executeHover'') args
                   = Inr (invokeFunction example_inst (handler original) args)"
    unfolding i by blast
  from o have "original = \<lparr>handler = (\<lambda>accessor args. Array args), command_when = None\<rparr>"
    by (simp add: getCommand_def example_monaco_def)
  with e have "\<forall>es. execute es (InternalCommandHandler example_inst (getCommands example_monaco)
                        ''_executeHover'') [Num 1, Str ''a'']
            = Inr (Array [Num 1, Str ''a''])"
    by (simp add: example_inst_def)
  moreover have "map (command_id \<circ> fst) (registerInternalLanguageServiceCommands example_monaco [])
     = [''_executeHover'']"
    unfolding r by (simp add: jsmap_keys_def example_monaco_def)
  ultimately show ?thesis by blast
qed

subsection \<open>Tab size and end of line\<close>

text \<open>
  C5. For an editor with a text model, \<^verbatim>\<open>configureTabSize\<close> opens one prompt whose
  items, whatever is typed, are the sizes 1 to 8 in increasing order, labelled with their
  decimal digit; the item whose size is the current tab size of the model has the suffix
  \<^verbatim>\<open>Configured Tab Size\<close>, and \<^verbatim>\<open>selectIndex\<close> of the empty string is the index of
  that item.
\<close>

theorem configureTabSize_choices:
  assumes "model_of w ed = Some model"
  shows "\<exists>c. configureTabSize w ed useSpaces = w\<lparr>quickOpen := quickOpen w @ [c]\<rparr>
     \<and> (\<forall>lookFor.
          map item_run (onType c lookFor)
            = map (\<lambda>sz. TabSizeRun model sz (tabSize (textModels w model)) useSpaces)
                [1, 2, 3, 4, 5, 6, 7, 8]
        \<and> map item_label (onType c lookFor)
            = map (\<lambda>sz. if sz = tabSize (textModels w model)
                         then toString sz @ ''   Configured Tab Size'' else toString sz)
                [1, 2, 3, 4, 5, 6, 7, 8]
        \<and> (\<forall>k < 8. int k + 1 = tabSize (textModels w model) \<longrightarrow>
              item_label (onType c lookFor ! k)
                = toString (tabSize (textModels w model)) @ ''   Configured Tab Size''
              \<and> (\<exists>f. selectIndex c = Some f \<and> f [] = int k)))
     \<and> map toString [1, 2, 3, 4, 5, 6, 7, 8]
          = map (\<lambda>d. [d]) ''12345678''"
proof -
  let ?ts = "tabSize (textModels w model)"
  let ?items = "map (\<lambda>sz.
                   \<lparr>item_label =
                      (if sz = ?ts then toString sz @ ''   Configured Tab Size''
                       else toString sz),
                    item_run = TabSizeRun model sz ?ts useSpaces\<rparr>) [1, 2, 3, 4, 5, 6, 7, 8]"
  let ?c = "\<lparr>onType = (\<lambda>_. ?items),
             placeholder = ''Select Tab Size for Current File'',
             fuzzyMatchLabel = True,
             selectIndex = Some (\<lambda>lookFor. if lookFor = [] then ?ts - 1 else 0)\<rparr>"
  have c: "configureTabSize w ed useSpaces = w\<lparr>quickOpen := quickOpen w @ [?c]\<rparr>"
    using assms
    by (simp add: configureTabSize_def Let_def quickOpenService_open_def sizes_eq)
  have runs: "map item_run ?items
            = map (\<lambda>sz. TabSizeRun model sz ?ts useSpaces) [1, 2, 3, 4, 5, 6, 7, 8]"
    by simp
  have labels: "map item_label ?items
            = map (\<lambda>sz. if sz = ?ts then toString sz @ ''   Configured Tab Size'' else toString sz)
                [1, 2, 3, 4, 5, 6, 7, 8]"
    by simp
  have sel: "\<forall>k < 8. int k + 1 = ?ts \<longrightarrow>
              item_label (?items ! k) = toString ?ts @ ''   Configured Tab Size''
              \<and> (\<exists>f. selectIndex ?c = Some f \<and> f [] = int k)"
  proof (intro allI impI)
    fix k :: nat assume k: "k < 8" "int k + 1 = ?ts"
    have "item_label (?items ! k)
        = (if [1, 2, 3, 4, 5, 6, 7, 8] ! k = ?ts
           then toString ([1, 2, 3, 4, 5, 6, 7, 8] ! k) @ ''   Configured Tab Size''
           else toString ([1, 2, 3, 4, 5, 6, 7, 8] ! k))"
      using k(1) by (subst nth_map) simp_all
    moreover have "[1, 2, 3, 4, 5, 6, 7, 8] ! k = int k + 1"
      using k(1) sizes_eq [symmetric] by (simp del: upt_Suc)
    ultimately have "item_label (?items ! k) = toString ?ts @ ''   Configured Tab Size''"
      using k(2) by simp
    moreover have "\<exists>f. selectIndex ?c = Some f \<and> f [] = int k"
      using k(2) by simp
    ultimately show "item_label (?items ! k) = toString ?ts @ ''   Configured Tab Size''
              \<and> (\<exists>f. selectIndex ?c = Some f \<and> f [] = int k)" ..
  qed
  have every: "\<forall>lookFor.
          map item_run (onType ?c lookFor)
            = map (\<lambda>sz. TabSizeRun model sz ?ts useSpaces) [1, 2, 3, 4, 5, 6, 7, 8]
        \<and> map item_label (onType ?c lookFor)
            = map (\<lambda>sz. if sz = ?ts then toString sz @ ''   Configured Tab Size'' else toString sz)
                [1, 2, 3, 4, 5, 6, 7, 8]
        \<and> (\<forall>k < 8. int k + 1 = ?ts \<longrightarrow>
              item_label (onType ?c lookFor ! k) = toString ?ts @ ''   Configured Tab Size''
              \<and> (\<exists>f. selectIndex ?c = Some f \<and> f [] = int k))"
    using runs labels sel by simp
  show ?thesis
    by (rule exI [of _ ?c], intro conjI) (rule c, rule every, rule toString_sizes)
qed

theorem configureTabSize_choices_witness:
  "\<exists>c f. configureTabSize example_world 0 True = example_world\<lparr>quickOpen := [c]\<rparr>
     \<and> map item_label (onType c ''4'')
          = [''1'', ''2'', ''3'', ''4   Configured Tab Size'', ''5'', ''6'', ''7'', ''8'']
     \<and> selectIndex c = Some f \<and> f [] = 3"
proof -
  have h: "model_of example_world 0 = Some 5"
    by (simp add: model_of_def example_world_def)
  have ts: "tabSize (textModels example_world 5) = 4"
    by (simp add: example_world_def)
  have q: "quickOpen example_world = []"
    by (simp add: example_world_def)
  from configureTabSize_choices [OF h, of True] obtain c where
    c: "configureTabSize example_world 0 True
          = example_world\<lparr>quickOpen := quickOpen example_world @ [c]\<rparr>"
    and l: "map item_label (onType c ''4'')
            = map (\<lambda>sz. if sz = tabSize (textModels example_world 5)
                         then toString sz @ ''   Configured Tab Size'' else toString sz)
                [1, 2, 3, 4, 5, 6, 7, 8]"
    and s: "\<forall>k < 8. int k + 1 = tabSize (textModels example_world 5) \<longrightarrow>
              item_label (onType c ''4'' ! k)
                = toString (tabSize (textModels example_world 5)) @ ''   Configured Tab Size''
              \<and> (\<exists>f. selectIndex c = Some f \<and> f [] = int k)"
    by blast
  from s [rule_format, of 3] ts obtain f where f: "selectIndex c = Some f" "f [] = 3"
    by auto
  from l have "map item_label (onType c ''4'')
          = [''1'', ''2'', ''3'', ''4   Configured Tab Size'', ''5'', ''6'', ''7'', ''8'']"
    unfolding ts by (simp add: toString_def digit_char_def)
  with c f show ?thesis unfolding q by auto
qed

text \<open>
  C6 (as amended). For every editor, \<^verbatim>\<open>configureEol\<close> opens one prompt whose items,
  whatever is typed, are \<^verbatim>\<open>LF\<close> and \<^verbatim>\<open>CRLF\<close> in this order, and running an item
  in mode \<^verbatim>\<open>OPEN\<close> returns true. When the editor has a text model at that moment,
  running the item pushes the end-of-line sequence of the item's label onto that model.
\<close>

theorem configureEol_choices:
  "\<exists>c. configureEol w ed = w\<lparr>quickOpen := quickOpen w @ [c]\<rparr>
     \<and> (\<forall>lookFor.
          map item_label (onType c lookFor) = [''LF'', ''CRLF'']
        \<and> (\<forall>w'. fst (run (item_run (onType c lookFor ! 0)) OPEN w')
                 \<and> fst (run (item_run (onType c lookFor ! 1)) OPEN w'))
        \<and> (\<forall>w' model. model_of w' ed = Some model \<longrightarrow>
              snd (run (item_run (onType c lookFor ! 0)) OPEN w')
                = w'\<lparr>textModels := (textModels w')(model := pushEOL (textModels w' model) LF)\<rparr>
            \<and> snd (run (item_run (onType c lookFor ! 1)) OPEN w')
                = w'\<lparr>textModels := (textModels w')(model := pushEOL (textModels w' model) CRLF)\<rparr>))"
  by (rule exI [of _ "\<lparr>onType = (\<lambda>_. map (\<lambda>lineEnding.
                      \<lparr>item_label = lineEnding, item_run = EolRun ed lineEnding\<rparr>)
                    [''LF'', ''CRLF'']),
            placeholder = ''Select End of Line Sequence'',
            fuzzyMatchLabel = True,
            selectIndex = None\<rparr>"])
     (simp add: configureEol_def quickOpenService_open_def setEol_def)

text \<open>
  An editor whose document has no text model: both items are offered, running either
  returns true, and no end-of-line sequence is pushed onto any model.
\<close>

theorem configureEol_counterexample:
  "model_of example_world 1 = None
   \<and> map item_label (onType (last (quickOpen (configureEol example_world 1))) [])
       = [''LF'', ''CRLF'']
   \<and> run (item_run (onType (last (quickOpen (configureEol example_world 1))) [] ! 0)) OPEN
         (configureEol example_world 1)
       = (True, configureEol example_world 1)
   \<and> run (item_run (onType (last (quickOpen (configureEol example_world 1))) [] ! 1)) OPEN
         (configureEol example_world 1)
       = (True, configureEol example_world 1)
   \<and> textModels (configureEol example_world 1) = textModels example_world
   \<and> (\<forall>r. pushedEOL (textModels example_world r) = [])"
  by (simp add: configureEol_def quickOpenService_open_def setEol_def model_of_def
      example_world_def)

theorem configureEol_choices_witness:
  "\<exists>c. configureEol example_world 0 = example_world\<lparr>quickOpen := [c]\<rparr>
     \<and> map item_label (onType c []) = [''LF'', ''CRLF'']
     \<and> pushedEOL (textModels (snd (run (item_run (onType c [] ! 1)) OPEN example_world)) 5)
         = [CRLF]
     \<and> pushedEOL (textModels (snd (run (item_run (onType c [] ! 0)) OPEN example_world)) 5)
         = [LF]"
proof -
  have h: "model_of example_world 0 = Some 5"
    by (simp add: model_of_def example_world_def)
  have q: "quickOpen example_world = []"
    by (simp add: example_world_def)
  have p: "pushedEOL (textModels example_world 5) = []"
    by (simp add: example_world_def)
  from configureEol_choices [of example_world 0] obtain c where
    c: "configureEol example_world 0 = example_world\<lparr>quickOpen := quickOpen example_world @ [c]\<rparr>"
    and l: "map item_label (onType c []) = [''LF'', ''CRLF'']"
    and r: "\<forall>w' model. model_of w' 0 = Some model \<longrightarrow>
              snd (run (item_run (onType c [] ! 0)) OPEN w')
                = w'\<lparr>textModels := (textModels w')(model := pushEOL (textModels w' model) LF)\<rparr>
            \<and> snd (run (item_run (onType c [] ! 1)) OPEN w')
                = w'\<lparr>textModels := (textModels w')(model := pushEOL (textModels w' model) CRLF)\<rparr>"
    by blast
  from r [rule_format, OF h] p c l show ?thesis
    unfolding q by (intro exI [of _ c]) (simp add: pushEOL_def)
qed

text \<open>
  C7. For an editor without a document, or whose document has no text model,
  \<^verbatim>\<open>setEol\<close> and \<^verbatim>\<open>configureTabSize\<close> leave the store and the list of opened
  prompts as they are.
\<close>

theorem absent_model_no_op:
  assumes "document (editors w ed) = None
           \<or> (\<exists>d. document (editors w ed) = Some d \<and> textEditorModel d = None)"
  shows "setEol w ed lineEnding = w \<and> configureTabSize w ed useSpaces = w"
proof -
  from assms have "model_of w ed = None"
    by (auto simp: model_of_def)
  then show ?thesis
    by (simp add: setEol_def configureTabSize_def)
qed

theorem absent_model_no_op_witness:
  "setEol example_world 1 ''CRLF'' = example_world
   \<and> configureTabSize example_world 1 True = example_world
   \<and> setEol example_world 2 ''LF'' = example_world
   \<and> configureTabSize example_world 2 False = example_world"
proof -
  have "document (editors example_world 2) = None"
    by (simp add: example_world_def)
  moreover have "\<exists>d. document (editors example_world 1) = Some d \<and> textEditorModel d = None"
    by (simp add: example_world_def)
  ultimately show ?thesis
    using absent_model_no_op [of example_world 1 "''CRLF''" True]
      absent_model_no_op [of example_world 2 "''LF''" False]
    by blast
qed

text \<open>
  C10. On an editor with a text model, \<^verbatim>\<open>setEol\<close> with any line ending other than
  \<^verbatim>\<open>CRLF\<close> and carriage return plus line feed pushes the sequence \<^verbatim>\<open>LF\<close>.
\<close>

theorem setEol_defaults_to_LF:
  assumes "model_of w ed = Some model"
    and "lineEnding \<noteq> ''CRLF''" and "lineEnding \<noteq> [CHR 0x0D, CHR 0x0A]"
  shows "setEol w ed lineEnding
           = w\<lparr>textModels := (textModels w)(model := pushEOL (textModels w model) LF)\<rparr>
         \<and> pushedEOL (textModels (setEol w ed lineEnding) model)
             = pushedEOL (textModels w model) @ [LF]"
  using assms by (simp add: setEol_def pushEOL_def)

theorem setEol_defaults_to_LF_witness:
  "pushedEOL (textModels (setEol example_world 0 ''crlf'') 5) = [LF]
   \<and> pushedEOL (textModels (setEol example_world 0 []) 5) = [LF]"
proof -
  have h: "model_of example_world 0 = Some 5"
    by (simp add: model_of_def example_world_def)
  have p: "pushedEOL (textModels example_world 5) = []"
    by (simp add: example_world_def)
  from setEol_defaults_to_LF [OF h, of "''crlf''"] setEol_defaults_to_LF [OF h, of "[]"] p
  show ?thesis by (simp add: pushEOL_def)
qed

subsection \<open>Keybinding contexts\<close>

text \<open>
  C8. \<^verbatim>\<open>MonacoStrictEditorTextFocusContext.canHandle\<close> is the editor's strict focus
  query when the widget's editor is a \<^verbatim>\<open>MonacoEditor\<close>, and the result of the base
  class otherwise.
\<close>

theorem canHandle_delegates:
  "(\<forall>e. editor widget = Monaco e \<longrightarrow> canHandle super_canHandle widget = isFocused e True)
   \<and> ((\<forall>e. editor widget \<noteq> Monaco e) \<longrightarrow> canHandle super_canHandle widget = super_canHandle widget)"
  by (cases "editor widget") (simp_all add: canHandle_def)

theorem canHandle_delegates_witness:
  "canHandle (\<lambda>w. True) \<lparr>editor = Monaco (editors example_world 0)\<rparr>
     = isFocused (editors example_world 0) True
   \<and> \<not> canHandle (\<lambda>w. True) \<lparr>editor = Monaco (editors example_world 0)\<rparr>
   \<and> canHandle (\<lambda>w. True) \<lparr>editor = OtherEditor 3\<rparr>"
proof -
  have f: "\<not> isFocused (editors example_world 0) True"
    by (simp add: example_world_def)
  from canHandle_delegates [of "\<lparr>editor = Monaco (editors example_world 0)\<rparr>" "\<lambda>w. True"]
    canHandle_delegates [of "\<lparr>editor = OtherEditor 3\<rparr>" "\<lambda>w. True"] f
  show ?thesis by simp
qed

text \<open>
  C9. \<^verbatim>\<open>MonacoNativeTextInputFocusContext.isEnabled\<close> is false whenever the base
  class's \<^verbatim>\<open>isEnabled\<close> is false. It is true exactly when the base class's is true and
  no proper ancestor of the active element has a non-empty id that starts with the factory
  id; for a non-empty factory id, it is false when some ancestor's id starts with it.
\<close>

theorem isEnabled_restricts:
  "(\<not> super_isEnabled doc \<longrightarrow> \<not> isEnabled super_isEnabled factoryId doc)
   \<and> (isEnabled super_isEnabled factoryId doc \<longleftrightarrow>
        super_isEnabled doc
        \<and> \<not> (\<exists>a \<in> set (ancestors doc). element_id a \<noteq> [] \<and> startsWith (element_id a) factoryId))
   \<and> (factoryId \<noteq> [] \<longrightarrow>
        (\<exists>a \<in> set (ancestors doc). startsWith (element_id a) factoryId) \<longrightarrow>
        \<not> isEnabled super_isEnabled factoryId doc)"
proof -
  have "factoryId \<noteq> [] \<Longrightarrow> startsWith i factoryId \<Longrightarrow> i \<noteq> []" for i
    by (cases factoryId) auto
  then show ?thesis
    unfolding isEnabled_def activeElementIsInEditor_iff by blast
qed

theorem isEnabled_restricts_witness:
  "\<not> isEnabled (\<lambda>d. False) ''code-editor-opener'' example_document
   \<and> \<not> isEnabled (\<lambda>d. True) ''code-editor-opener'' example_document
   \<and> isEnabled (\<lambda>d. True) ''code-editor-opener'' \<lparr>activeElement = Some (Element ''input'' None)\<rparr>"
proof -
  have a: "\<exists>a \<in> set (ancestors example_document). startsWith (element_id a) ''code-editor-opener''"
    by (simp add: ancestors_def example_document_def)
  have n: "ancestors \<lparr>activeElement = Some (Element ''input'' None)\<rparr> = []"
    by (simp add: ancestors_def)
  have "\<not> isEnabled (\<lambda>d. False) ''code-editor-opener'' example_document"
    using isEnabled_restricts [of "\<lambda>d. False" example_document "''code-editor-opener''"]
    by simp
  moreover have "\<not> isEnabled (\<lambda>d. True) ''code-editor-opener'' example_document"
    using isEnabled_restricts [of "\<lambda>d. True" example_document "''code-editor-opener''"] a
    by blast
  moreover have "isEnabled (\<lambda>d. True) ''code-editor-opener''
                   \<lparr>activeElement = Some (Element ''input'' None)\<rparr>"
    using isEnabled_restricts [of "\<lambda>d. True" "\<lparr>activeElement = Some (Element ''input'' None)\<rparr>"
      "''code-editor-opener''"]
    unfolding n by simp
  ultimately show ?thesis by blast
qed

end
